theory Spec2Isabelle
  imports Main "HOL-Library.Multiset"
begin

section \<open>Data model (src/types/index.ts)\<close>

text \<open>
  The rows of the three tables the services read and write. Columns that no modelled
  service branches on (title, description, location, url of the cover, owner) are carried
  by the database unchanged and are left out, except where a service writes them.
  Identifiers and dates are the strings the source passes around; positions are integers.
\<close>

record event =
  event_id :: string
  memory_lane_id :: string
  event_date :: string
  order_position :: int
  created_at :: string
  updated_at :: string
  deleted_at :: "string option"

record image =
  image_id :: string
  image_event_id :: string
  url :: string
  alt_text :: "string option"
  image_order_position :: int
  image_created_at :: string

record memory_lane =
  lane_id :: string
  date_range_start :: "string option"
  date_range_end :: "string option"
  lane_updated_at :: string
  lane_deleted_at :: "string option"

text \<open>The virtual property of an image: \<^verbatim>\<open>is_primary: img.order_position === 0\<close>.\<close>

definition is_primary :: "image \<Rightarrow> bool" where
  "is_primary img = (image_order_position img = 0)"

text \<open>
  The argument of \<^verbatim>\<open>createEvent\<close>: an event without id and system fields. The type says
  \<^verbatim>\<open>order_position: number\<close>, the code tests it for falsiness, so an absent value is
  \<open>None\<close>.
\<close>

record new_event =
  ne_memory_lane_id :: string
  ne_event_date :: string
  ne_order_position :: "int option"

text \<open>The argument of \<^verbatim>\<open>updateEvent\<close>: a partial event, \<open>None\<close> for an absent key.\<close>

record event_updates =
  upd_memory_lane_id :: "string option"
  upd_event_date :: "string option"
  upd_order_position :: "int option"

text \<open>
  The argument of \<^verbatim>\<open>updateMemoryLane\<close>: a partial lane; \<open>Some None\<close> writes null.
\<close>

record lane_updates =
  lu_date_range_start :: "string option option"
  lu_date_range_end :: "string option option"

section \<open>The JavaScript environment\<close>

text \<open>
  What the services take from outside the repository. A \<^verbatim>\<open>Date\<close> object is modelled by
  its time value (\<^verbatim>\<open>getTime()\<close>); the strings of the date columns are valid dates, so
  \<^verbatim>\<open>Invalid Date\<close> is not modelled.
  \<^item> \<open>now\<close>: \<^verbatim>\<open>new Date().toISOString()\<close> during one service call;
  \<^item> \<open>newDate\<close>: the time value of \<^verbatim>\<open>new Date(s)\<close>;
  \<^item> \<open>toISOString\<close>: \<^verbatim>\<open>Date.prototype.toISOString\<close> on a time value;
  \<^item> \<open>getFullYear\<close>, \<open>getMonth\<close>: the local calendar fields of a time value;
  \<^item> \<open>yearNumeric\<close>: how the \<^verbatim>\<open>en-US\<close> locale prints a year;
  \<^item> \<open>shift_image_positions\<close>: the stored procedure of that name, called through
    \<^verbatim>\<open>supabase.rpc\<close>; it is not part of the sources, so its effect on the images table is
    a parameter.
\<close>

record env =
  now :: string
  newDate :: "string \<Rightarrow> int"
  toISOString :: "int \<Rightarrow> string"
  getFullYear :: "int \<Rightarrow> int"
  getMonth :: "int \<Rightarrow> nat"
  yearNumeric :: "int \<Rightarrow> string"
  shift_image_positions :: "string \<Rightarrow> image list \<Rightarrow> image list"

section \<open>The database and its failures\<close>

text \<open>
  The Supabase client resolves every request to \<^verbatim>\<open>{ data, error }\<close>; the services test
  \<^verbatim>\<open>error\<close> and throw it themselves. A request that fails changes nothing. Which
  requests fail is decided outside the program: \<open>faults\<close> holds the outcome of the
  coming requests in order (\<open>True\<close>: the request returns an error), an exhausted list
  means no further failure.

  \<open>trace\<close> is an observation log, not program state: it records each write to the
  events table made by an event mutation and each invocation of \<^verbatim>\<open>updateDateRange\<close>.
\<close>

datatype call = EventWrite string | Recompute string

datatype error = DbError | EventNotFound

record world =
  events :: "event list"
  images :: "image list"
  memory_lanes :: "memory_lane list"
  faults :: "bool list"
  trace :: "call list"

definition request :: "world \<Rightarrow> bool \<times> world" where
  "request w = (case faults w of [] \<Rightarrow> (False, w) | f # fs \<Rightarrow> (f, w\<lparr>faults := fs\<rparr>))"

definition log_call :: "call \<Rightarrow> world \<Rightarrow> world" where
  "log_call c w = w\<lparr>trace := trace w @ [c]\<rparr>"

text \<open>JavaScript truthiness of an optional number and of an optional string.\<close>

definition truthy_num :: "int option \<Rightarrow> bool" where
  "truthy_num v = (case v of None \<Rightarrow> False | Some n \<Rightarrow> n \<noteq> 0)"

definition truthy_str :: "string option \<Rightarrow> bool" where
  "truthy_str v = (case v of None \<Rightarrow> False | Some s \<Rightarrow> s \<noteq> [])"

section \<open>memoryLaneService\<close>

text \<open>
  \<^verbatim>\<open>.from('events').select('*').eq('memory_lane_id', l).is('deleted_at', null)\<close>: the
  live events of a lane, in table order.
\<close>

definition live_events :: "string \<Rightarrow> event list \<Rightarrow> event list" where
  "live_events l es = filter (\<lambda>e. memory_lane_id e = l \<and> deleted_at e = None) es"

text \<open>
  \<^verbatim>\<open>getMemoryLaneEvents\<close>: the live events ordered by ascending position (the order among
  equal positions is the table's).
\<close>

definition getMemoryLaneEvents :: "string \<Rightarrow> world \<Rightarrow> (error + event list) \<times> world" where
  "getMemoryLaneEvents memoryLaneId w =
     (let (failed, w1) = request w in
      if failed then (Inl DbError, w1)
      else (Inr (sort_key order_position (live_events memoryLaneId (events w1))), w1))"

definition apply_lane_updates :: "env \<Rightarrow> lane_updates \<Rightarrow> memory_lane \<Rightarrow> memory_lane" where
  "apply_lane_updates en u l =
     l\<lparr>date_range_start := (case lu_date_range_start u of None \<Rightarrow> date_range_start l | Some v \<Rightarrow> v),
       date_range_end := (case lu_date_range_end u of None \<Rightarrow> date_range_end l | Some v \<Rightarrow> v),
       lane_updated_at := now en\<rparr>"

text \<open>
  \<^verbatim>\<open>updateMemoryLane\<close>: updates the rows with the id \<open>lid\<close> that are not soft-deleted and
  returns \<^verbatim>\<open>data[0]\<close> (\<open>None\<close> for \<^verbatim>\<open>undefined\<close>, when no row matched).
\<close>

definition updateMemoryLane ::
  "env \<Rightarrow> string \<Rightarrow> lane_updates \<Rightarrow> world \<Rightarrow> (error + memory_lane option) \<times> world" where
  "updateMemoryLane en lid u w =
     (let (failed, w1) = request w in
      if failed then (Inl DbError, w1)
      else
        let hit = (\<lambda>l. lane_id l = lid \<and> lane_deleted_at l = None);
            data = map (apply_lane_updates en u) (filter hit (memory_lanes w1));
            rows = map (\<lambda>l. if hit l then apply_lane_updates en u l else l) (memory_lanes w1)
        in (Inr (case data of [] \<Rightarrow> None | r # _ \<Rightarrow> Some r), w1\<lparr>memory_lanes := rows\<rparr>))"

text \<open>
  \<^verbatim>\<open>updateDateRange\<close>. The dates are sorted by time value; \<^verbatim>\<open>eventDates[0]\<close> and
  \<^verbatim>\<open>eventDates[eventDates.length - 1]\<close> are read on a non-empty array only. The
  \<^verbatim>\<open>catch\<close> logs and rethrows, so an error of either request is the result.
\<close>

definition updateDateRange ::
  "env \<Rightarrow> string \<Rightarrow> world \<Rightarrow> (error + string option \<times> string option) \<times> world" where
  "updateDateRange en memoryLaneId w =
     (let (r, w1) = getMemoryLaneEvents memoryLaneId (log_call (Recompute memoryLaneId) w) in
      case r of
        Inl e \<Rightarrow> (Inl e, w1)
      | Inr evs \<Rightarrow>
          if length evs = 0 then
            (let (r2, w2) = updateMemoryLane en memoryLaneId
                   \<lparr>lu_date_range_start = Some None, lu_date_range_end = Some None\<rparr> w1
             in case r2 of Inl e \<Rightarrow> (Inl e, w2) | Inr _ \<Rightarrow> (Inr (None, None), w2))
          else
            (let eventDates = sort (map (\<lambda>ev. newDate en (event_date ev)) evs);
                 earliest = toISOString en (hd eventDates);
                 latest = toISOString en (last eventDates);
                 (r2, w2) = updateMemoryLane en memoryLaneId
                   \<lparr>lu_date_range_start = Some (Some earliest),
                    lu_date_range_end = Some (Some latest)\<rparr> w1
             in case r2 of
                  Inl e \<Rightarrow> (Inl e, w2)
                | Inr _ \<Rightarrow> (Inr (Some earliest, Some latest), w2)))"





section \<open>eventService: events\<close>

text \<open>
  \<^verbatim>\<open>getEventById\<close>: \<^verbatim>\<open>.single()\<close> reports \<^verbatim>\<open>PGRST116\<close> unless exactly one row matches, and
  the service turns that into null; any other error is thrown.
\<close>

definition getEventById :: "string \<Rightarrow> world \<Rightarrow> (error + event option) \<times> world" where
  "getEventById eid w =
     (let (failed, w1) = request w in
      if failed then (Inl DbError, w1)
      else (Inr (case filter (\<lambda>e. event_id e = eid \<and> deleted_at e = None) (events w1) of
                   [e] \<Rightarrow> Some e
                 | _ \<Rightarrow> None), w1))"

text \<open>
  \<^verbatim>\<open>createEvent\<close>. \<open>uuid\<close> is the value of \<^verbatim>\<open>uuidv4()\<close>. The query for the maximum orders
  the live events of the lane by descending position and keeps one row. The
  \<^verbatim>\<open>try/catch\<close> around \<^verbatim>\<open>updateDateRange\<close> drops its result and its error.
\<close>

definition createEvent :: "env \<Rightarrow> new_event \<Rightarrow> string \<Rightarrow> world \<Rightarrow> (error + event) \<times> world" where
  "createEvent en ev uuid w =
     (let (r, w1) =
        (if \<not> truthy_num (ne_order_position ev) then
           (let (maxOrderError, w') = request w in
            if maxOrderError then (Inl DbError, w')
            else
              let maxOrderData =
                    take 1 (rev (sort_key order_position
                      (live_events (ne_memory_lane_id ev) (events w'))))
              in (Inr (case maxOrderData of [] \<Rightarrow> 1 | m # _ \<Rightarrow> order_position m + 1), w'))
         else (Inr (case ne_order_position ev of None \<Rightarrow> 0 | Some n \<Rightarrow> n), w))
      in case r of
           Inl e \<Rightarrow> (Inl e, w1)
         | Inr pos \<Rightarrow>
             (let (failed, w2) = request w1 in
              if failed then (Inl DbError, w2)
              else
                let row = \<lparr>event_id = uuid, memory_lane_id = ne_memory_lane_id ev,
                           event_date = ne_event_date ev, order_position = pos,
                           created_at = now en, updated_at = now en, deleted_at = None\<rparr>;
                    w3 = log_call (EventWrite uuid) (w2\<lparr>events := events w2 @ [row]\<rparr>);
                    w4 = snd (updateDateRange en (ne_memory_lane_id ev) w3)
                in (Inr row, w4)))"

definition apply_event_updates :: "env \<Rightarrow> event_updates \<Rightarrow> event \<Rightarrow> event" where
  "apply_event_updates en u e =
     e\<lparr>memory_lane_id := (case upd_memory_lane_id u of None \<Rightarrow> memory_lane_id e | Some v \<Rightarrow> v),
       event_date := (case upd_event_date u of None \<Rightarrow> event_date e | Some v \<Rightarrow> v),
       order_position := (case upd_order_position u of None \<Rightarrow> order_position e | Some v \<Rightarrow> v),
       updated_at := now en\<rparr>"

text \<open>
  \<^verbatim>\<open>updateEvent\<close>; the result is \<^verbatim>\<open>data[0]\<close>, \<open>None\<close> for \<^verbatim>\<open>undefined\<close>. The date range is
  recomputed when \<^verbatim>\<open>updates.event_date\<close> is truthy, for the lane of the event as read
  before the write.
\<close>

definition updateEvent ::
  "env \<Rightarrow> string \<Rightarrow> event_updates \<Rightarrow> world \<Rightarrow> (error + event option) \<times> world" where
  "updateEvent en eid updates w =
     (let (r, w1) = getEventById eid w in
      case r of
        Inl e \<Rightarrow> (Inl e, w1)
      | Inr None \<Rightarrow> (Inl EventNotFound, w1)
      | Inr (Some currentEvent) \<Rightarrow>
          (let (failed, w2) = request w1 in
           if failed then (Inl DbError, w2)
           else
             let hit = (\<lambda>e. event_id e = eid \<and> deleted_at e = None);
                 data = map (apply_event_updates en updates) (filter hit (events w2));
                 rows = map (\<lambda>e. if hit e then apply_event_updates en updates e else e) (events w2);
                 w3 = log_call (EventWrite eid) (w2\<lparr>events := rows\<rparr>);
                 w4 = (if truthy_str (upd_event_date updates)
                       then snd (updateDateRange en (memory_lane_id currentEvent) w3)
                       else w3)
             in (Inr (case data of [] \<Rightarrow> None | d # _ \<Rightarrow> Some d), w4)))"

text \<open>\<^verbatim>\<open>deleteEvent\<close>: the soft delete writes every row with the id.\<close>

definition deleteEvent :: "env \<Rightarrow> string \<Rightarrow> world \<Rightarrow> (error + unit) \<times> world" where
  "deleteEvent en eid w =
     (let (r, w1) = getEventById eid w in
      case r of
        Inl e \<Rightarrow> (Inl e, w1)
      | Inr None \<Rightarrow> (Inl EventNotFound, w1)
      | Inr (Some currentEvent) \<Rightarrow>
          (let (failed, w2) = request w1 in
           if failed then (Inl DbError, w2)
           else
             let rows = map (\<lambda>e. if event_id e = eid
                                  then e\<lparr>deleted_at := Some (now en), updated_at := now en\<rparr>
                                  else e) (events w2);
                 w3 = log_call (EventWrite eid) (w2\<lparr>events := rows\<rparr>);
                 w4 = snd (updateDateRange en (memory_lane_id currentEvent) w3)
             in (Inr (), w4)))"

text \<open>
  \<^verbatim>\<open>reorderEvents\<close>: one update per pair, awaited together; the \<^verbatim>\<open>error\<close> of a resolved
  update is never read. The requests are applied in the order of the array.
\<close>

primrec reorder_updates :: "env \<Rightarrow> string \<Rightarrow> (string \<times> int) list \<Rightarrow> world \<Rightarrow> world" where
  "reorder_updates en memoryLaneId [] w = w"
| "reorder_updates en memoryLaneId (eo # rest) w =
     (let (failed, w1) = request w in
      reorder_updates en memoryLaneId rest
        (if failed then w1
         else log_call (EventWrite (fst eo))
                (w1\<lparr>events :=
                      map (\<lambda>e. if event_id e = fst eo \<and> memory_lane_id e = memoryLaneId
                                    \<and> deleted_at e = None
                                then e\<lparr>order_position := snd eo, updated_at := now en\<rparr>
                                else e) (events w1)\<rparr>)))"

definition reorderEvents ::
  "env \<Rightarrow> string \<Rightarrow> (string \<times> int) list \<Rightarrow> world \<Rightarrow> (error + unit) \<times> world" where
  "reorderEvents en memoryLaneId eventOrders w =
     (Inr (), reorder_updates en memoryLaneId eventOrders w)"

section \<open>eventService: images\<close>

text \<open>\<^verbatim>\<open>.from('images').select(...).eq('event_id', e)\<close>: images have no soft delete.\<close>

definition event_images :: "string \<Rightarrow> image list \<Rightarrow> image list" where
  "event_images e imgs = filter (\<lambda>i. image_event_id i = e) imgs"

text \<open>\<^verbatim>\<open>.update({ order_position: p }).eq('id', x)\<close>\<close>

definition update_image_position :: "string \<Rightarrow> int \<Rightarrow> image list \<Rightarrow> image list" where
  "update_image_position x p imgs =
     map (\<lambda>i. if image_id i = x then i\<lparr>image_order_position := p\<rparr> else i) imgs"



text \<open>
  The loop of \<^verbatim>\<open>setPrimaryImage\<close>: \<^verbatim>\<open>position++\<close> is evaluated for every image but the
  target, whether its update succeeds or not, and the result of the update is ignored.
\<close>

primrec reorder_loop :: "string \<Rightarrow> image list \<Rightarrow> int \<Rightarrow> world \<Rightarrow> world" where
  "reorder_loop imageId [] position w = w"
| "reorder_loop imageId (img # rest) position w =
     (if image_id img \<noteq> imageId then
        (let (failed, w1) = request w in
         reorder_loop imageId rest (position + 1)
           (if failed then w1
            else w1\<lparr>images := update_image_position (image_id img) position (images w1)\<rparr>))
      else reorder_loop imageId rest position w)"

text \<open>
  \<^verbatim>\<open>setPrimaryImage\<close>: the siblings are fetched by ascending position before the target
  is written; the errors of the fetch and of the target's update are thrown.
\<close>

definition setPrimaryImage :: "string \<Rightarrow> string \<Rightarrow> world \<Rightarrow> (error + unit) \<times> world" where
  "setPrimaryImage imageId eventId w =
     (let (fetchError, w1) = request w in
      if fetchError then (Inl DbError, w1)
      else
        let imgs = sort_key image_order_position (event_images eventId (images w1));
            (updateError, w2) = request w1
        in if updateError then (Inl DbError, w2)
           else (Inr (), reorder_loop imageId imgs 1
                           (w2\<lparr>images := update_image_position imageId 0 (images w2)\<rparr>)))"

section \<open>A sample environment\<close>

text \<open>
  A concrete environment for evaluating the services: a handful of calendar dates with
  their time values and their calendar fields in a UTC time zone, the decimal rendering of
  years, and a stored procedure that moves the images of the event up by one.
\<close>

definition sample_dates :: "(string \<times> int \<times> int \<times> nat) list" where
  "sample_dates =
     [(''2022-11-01'', 1667260800000, 2022, 10),
      (''2023-01-05'', 1672876800000, 2023, 0),
      (''2023-01-10'', 1673308800000, 2023, 0),
      (''2023-01-20'', 1674172800000, 2023, 0),
      (''2023-02-01'', 1675209600000, 2023, 1),
      (''2023-03-01'', 1677628800000, 2023, 2),
      (''2023-05-05'', 1683244800000, 2023, 4),
      (''2023-06-20'', 1687219200000, 2023, 5)]"

fun decimal :: "nat \<Rightarrow> string" where
  "decimal n =
     (if n < 10 then [''0123456789'' ! n]
      else decimal (n div 10) @ [''0123456789'' ! (n mod 10)])"

definition sample_env :: env where
  "sample_env =
     \<lparr>now = ''2024-01-01T00:00:00.000Z'',
      newDate = (\<lambda>s. case map_of sample_dates s of None \<Rightarrow> 0 | Some (t, y, m) \<Rightarrow> t),
      toISOString = (\<lambda>t. case find (\<lambda>(s, t', y, m). t' = t) sample_dates of
                            None \<Rightarrow> ''1970-01-01T00:00:00.000Z''
                          | Some (s, t', y, m) \<Rightarrow> s @ ''T00:00:00.000Z''),
      getFullYear = (\<lambda>t. case find (\<lambda>(s, t', y, m). t' = t) sample_dates of
                            None \<Rightarrow> 1970 | Some (s, t', y, m) \<Rightarrow> y),
      getMonth = (\<lambda>t. case find (\<lambda>(s, t', y, m). t' = t) sample_dates of
                            None \<Rightarrow> 0 | Some (s, t', y, m) \<Rightarrow> m),
      yearNumeric = (\<lambda>y. decimal (nat y)),
      shift_image_positions =
        (\<lambda>e imgs. map (\<lambda>i. if image_event_id i = e
                              then i\<lparr>image_order_position := image_order_position i + 1\<rparr>
                              else i) imgs)\<rparr>"

text \<open>
  A database for the evaluations: lane L with three live events and a soft-deleted one,
  lane M with one event; event A with three images whose positions have a gap.
\<close>

definition sample_world :: world where
  "sample_world =
     \<lparr>events =
        [\<lparr>event_id = ''A'', memory_lane_id = ''L'', event_date = ''2023-03-01'',
          order_position = 1, created_at = ''t0'', updated_at = ''t0'', deleted_at = None\<rparr>,
         \<lparr>event_id = ''B'', memory_lane_id = ''L'', event_date = ''2023-01-10'',
          order_position = 2, created_at = ''t0'', updated_at = ''t0'', deleted_at = None\<rparr>,
         \<lparr>event_id = ''C'', memory_lane_id = ''L'', event_date = ''2023-05-05'',
          order_position = 3, created_at = ''t0'', updated_at = ''t0'', deleted_at = None\<rparr>,
         \<lparr>event_id = ''D'', memory_lane_id = ''L'', event_date = ''2022-11-01'',
          order_position = 3, created_at = ''t0'', updated_at = ''t1'', deleted_at = Some ''t1''\<rparr>,
         \<lparr>event_id = ''E'', memory_lane_id = ''M'', event_date = ''2023-06-20'',
          order_position = 1, created_at = ''t0'', updated_at = ''t0'', deleted_at = None\<rparr>],
      images =
        [\<lparr>image_id = ''a'', image_event_id = ''A'', url = ''u/a'', alt_text = None,
          image_order_position = 0, image_created_at = ''t0''\<rparr>,
         \<lparr>image_id = ''b'', image_event_id = ''A'', url = ''u/b'', alt_text = None,
          image_order_position = 2, image_created_at = ''t0''\<rparr>,
         \<lparr>image_id = ''c'', image_event_id = ''A'', url = ''u/c'', alt_text = None,
          image_order_position = 5, image_created_at = ''t0''\<rparr>,
         \<lparr>image_id = ''d'', image_event_id = ''B'', url = ''u/d'', alt_text = None,
          image_order_position = 0, image_created_at = ''t0''\<rparr>],
      memory_lanes =
        [\<lparr>lane_id = ''L'', date_range_start = None, date_range_end = None,
          lane_updated_at = ''t0'', lane_deleted_at = None\<rparr>,
         \<lparr>lane_id = ''M'', date_range_start = None, date_range_end = None,
          lane_updated_at = ''t0'', lane_deleted_at = None\<rparr>],
      faults = [],
      trace = []\<rparr>"

section \<open>Vocabulary of the properties\<close>

text \<open>The next \<open>n\<close> requests succeed.\<close>

definition succeed :: "nat \<Rightarrow> world \<Rightarrow> bool" where
  "succeed n w = (True \<notin> set (take n (faults w)))"

text \<open>
  The range that the live events of a lane determine: nothing for no event, else the ISO
  rendering of the least and of the greatest time value of their dates.
\<close>

definition lane_range :: "env \<Rightarrow> string \<Rightarrow> event list \<Rightarrow> string option \<times> string option" where
  "lane_range en l es =
     (let live = live_events l es;
          times = (\<lambda>ev. newDate en (event_date ev)) ` set live
      in if live = [] then (None, None)
         else (Some (toISOString en (Min times)), Some (toISOString en (Max times))))"

text \<open>The position an append assigns, given the positions read: one after the greatest.\<close>

definition next_position :: "int list \<Rightarrow> int" where
  "next_position ps = (if ps = [] then 1 else Max (set ps) + 1)"



text \<open>The row an append inserts.\<close>

definition appended_event :: "env \<Rightarrow> new_event \<Rightarrow> string \<Rightarrow> world \<Rightarrow> event" where
  "appended_event en ev uuid w =
     \<lparr>event_id = uuid, memory_lane_id = ne_memory_lane_id ev, event_date = ne_event_date ev,
      order_position =
        next_position (map order_position (live_events (ne_memory_lane_id ev) (events w))),
      created_at = now en, updated_at = now en, deleted_at = None\<rparr>"



text \<open>
  The effect of a batch of position writes by id: every image whose id has an entry in
  the association list takes the position of its first entry.
\<close>

definition assign_positions :: "(string \<times> int) list \<Rightarrow> image list \<Rightarrow> image list" where
  "assign_positions m imgs =
     map (\<lambda>i. case map_of m (image_id i) of
                 None \<Rightarrow> i
               | Some p \<Rightarrow> i\<lparr>image_order_position := p\<rparr>) imgs"

text \<open>The positions the loop of \<open>setPrimaryImage\<close> hands out, from \<open>p\<close> on.\<close>

definition numbering :: "string \<Rightarrow> image list \<Rightarrow> int \<Rightarrow> (string \<times> int) list" where
  "numbering t imgs p =
     (let ids = filter (\<lambda>x. x \<noteq> t) (map image_id imgs)
      in zip ids (map (\<lambda>k. p + int k) [0..<length ids]))"

section \<open>Requests and the date range\<close>

lemma request_fields [simp]:
  "events (snd (request w)) = events w"
  "images (snd (request w)) = images w"
  "memory_lanes (snd (request w)) = memory_lanes w"
  "trace (snd (request w)) = trace w"
  by (simp_all add: request_def split: list.split)

lemma request_succeed: "succeed (Suc n) w \<Longrightarrow> \<not> fst (request w) \<and> succeed n (snd (request w))"
  by (cases "faults w") (auto simp: succeed_def request_def)

lemma request_no_faults [simp]: "faults w = [] \<Longrightarrow> request w = (False, w)"
  by (simp add: request_def)

lemma succeed_no_faults [simp]: "faults w = [] \<Longrightarrow> succeed n w"
  by (simp add: succeed_def)

lemma log_call_fields [simp]:
  "events (log_call c w) = events w"
  "images (log_call c w) = images w"
  "memory_lanes (log_call c w) = memory_lanes w"
  "faults (log_call c w) = faults w"
  "trace (log_call c w) = trace w @ [c]"
  by (simp_all add: log_call_def)

lemma succeed_log_call [simp]: "succeed n (log_call c w) = succeed n w"
  by (simp add: succeed_def)

lemma sorted_hd_Min: "sorted xs \<Longrightarrow> xs \<noteq> [] \<Longrightarrow> hd xs = Min (set xs)"
  by (cases xs) (auto intro!: Min_eqI [symmetric])

lemma sorted_last_Max: "sorted xs \<Longrightarrow> xs \<noteq> [] \<Longrightarrow> last xs = Max (set xs)"
  by (induction xs) (auto simp: max_def intro: antisym)

lemma sort_eq_Nil: "sort_key f xs = [] \<longleftrightarrow> xs = []"
  by (metis length_sort length_0_conv)

lemma hd_sort_Min: "xs \<noteq> [] \<Longrightarrow> hd (sort xs) = Min (set xs)"
  using sorted_hd_Min [of "sort xs"] by (simp add: sort_eq_Nil)

lemma last_sort_Max: "xs \<noteq> [] \<Longrightarrow> last (sort xs) = Max (set xs)"
  using sorted_last_Max [of "sort xs"] by (simp add: sort_eq_Nil)

lemma getMemoryLaneEvents_ok:
  "\<not> fst (request w) \<Longrightarrow>
   getMemoryLaneEvents l w = (Inr (sort_key order_position (live_events l (events w))), snd (request w))"
  by (simp add: getMemoryLaneEvents_def split_beta)

lemma updateMemoryLane_ok:
  "\<not> fst (request w) \<Longrightarrow>
   updateMemoryLane en l u w =
     (Inr (case map (apply_lane_updates en u)
                  (filter (\<lambda>r. lane_id r = l \<and> lane_deleted_at r = None) (memory_lanes w)) of
             [] \<Rightarrow> None | r # _ \<Rightarrow> Some r),
      (snd (request w))\<lparr>memory_lanes :=
        map (\<lambda>r. if lane_id r = l \<and> lane_deleted_at r = None then apply_lane_updates en u r else r)
          (memory_lanes w)\<rparr>)"
  by (simp add: updateMemoryLane_def split_beta Let_def)

lemma updateDateRange_ok:
  assumes "succeed 2 w"
  shows "fst (updateDateRange en l w) = Inr (lane_range en l (events w))"
    and "memory_lanes (snd (updateDateRange en l w)) =
         map (\<lambda>r. if lane_id r = l \<and> lane_deleted_at r = None
                   then r\<lparr>date_range_start := fst (lane_range en l (events w)),
                          date_range_end := snd (lane_range en l (events w)),
                          lane_updated_at := now en\<rparr>
                   else r) (memory_lanes w)"
proof -
  let ?w0 = "log_call (Recompute l) w"
  let ?w1 = "snd (request ?w0)"
  have s0: "succeed (Suc 1) ?w0" using assms by (simp add: numeral_2_eq_2)
  have r1: "\<not> fst (request ?w0)" and s1: "succeed (Suc 0) ?w1"
    using request_succeed [OF s0] by simp_all
  have r2: "\<not> fst (request ?w1)" using request_succeed [OF s1] by simp
  note g = getMemoryLaneEvents_ok [OF r1, of l]
  note u = updateMemoryLane_ok [OF r2, of en l]
  show "fst (updateDateRange en l w) = Inr (lane_range en l (events w))"
    by (simp add: updateDateRange_def g u Let_def lane_range_def sort_eq_Nil hd_sort_Min
          last_sort_Max image_image)
  show "memory_lanes (snd (updateDateRange en l w)) =
         map (\<lambda>r. if lane_id r = l \<and> lane_deleted_at r = None
                   then r\<lparr>date_range_start := fst (lane_range en l (events w)),
                          date_range_end := snd (lane_range en l (events w)),
                          lane_updated_at := now en\<rparr>
                   else r) (memory_lanes w)"
    by (simp add: updateDateRange_def g u Let_def lane_range_def sort_eq_Nil hd_sort_Min
          last_sort_Max image_image apply_lane_updates_def)
qed


lemma request_eq: "request w = (faults w \<noteq> [] \<and> hd (faults w), w\<lparr>faults := tl (faults w)\<rparr>)"
  by (cases "faults w") (simp_all add: request_def)

lemma succeed_drop:
  "succeed (n + m) w \<Longrightarrow> faults w' = drop n (faults w) \<Longrightarrow> succeed m w'"
  by (auto simp: succeed_def take_add)

lemma updateDateRange_frame [simp]:
  "events (snd (updateDateRange en l w)) = events w"
  "images (snd (updateDateRange en l w)) = images w"
  "trace (snd (updateDateRange en l w)) = trace w @ [Recompute l]"
  by (simp_all add: updateDateRange_def getMemoryLaneEvents_def updateMemoryLane_def
        split_beta Let_def split: sum.splits)

lemma updateDateRange_faults:
  "faults (snd (updateDateRange en l w)) =
     (if faults w \<noteq> [] \<and> hd (faults w) then tl (faults w) else tl (tl (faults w)))"
  by (simp add: updateDateRange_def getMemoryLaneEvents_def updateMemoryLane_def
        split_beta Let_def request_eq split: sum.splits)

lemma lane_range_perm: "mset es' = mset es \<Longrightarrow> lane_range en l es' = lane_range en l es"
proof -
  assume "mset es' = mset es"
  then have "set es' = set es" by (rule mset_eq_setD)
  then have "set (live_events l es') = set (live_events l es)"
    by (simp add: live_events_def)
  moreover from this have "live_events l es' = [] \<longleftrightarrow> live_events l es = []"
    by (metis set_empty)
  ultimately show ?thesis by (simp add: lane_range_def Let_def)
qed

text \<open>
  Claim C4. When its two requests succeed, \<^verbatim>\<open>updateDateRange\<close> returns, and writes to
  every live lane row with the id, null and null when the lane has no live event, and
  otherwise the ISO renderings of the least and of the greatest date of the lane's live
  events (soft-deleted events do not count). The result is the same for every
  permutation of the events table.
\<close>

theorem updateDateRange_extremes:
  assumes "succeed 2 w"
  shows "let live = live_events l (events w);
             times = (\<lambda>ev. newDate en (event_date ev)) ` set live;
             range = (if live = [] then (None, None)
                      else (Some (toISOString en (Min times)), Some (toISOString en (Max times))));
             r = updateDateRange en l w
         in fst r = Inr range \<and>
            map lane_id (memory_lanes (snd r)) = map lane_id (memory_lanes w) \<and>
            (\<forall>lane \<in> set (memory_lanes (snd r)).
               lane_id lane = l \<and> lane_deleted_at lane = None \<longrightarrow>
               (date_range_start lane, date_range_end lane) = range) \<and>
            (\<forall>es'. mset es' = mset (events w) \<longrightarrow>
               fst (updateDateRange en l (w\<lparr>events := es'\<rparr>)) = fst r)"
proof -
  have p: "fst (updateDateRange en l (w\<lparr>events := es'\<rparr>)) = fst (updateDateRange en l w)"
    if "mset es' = mset (events w)" for es'
  proof -
    have "succeed 2 (w\<lparr>events := es'\<rparr>)" using assms by (simp add: succeed_def)
    then show ?thesis
      using updateDateRange_ok(1) [of "w\<lparr>events := es'\<rparr>" en l] updateDateRange_ok(1) [OF assms, of en l]
        lane_range_perm [OF that, of en l] by simp
  qed
  have lr: "lane_range en l (events w) =
     (if live_events l (events w) = [] then (None, None)
      else (Some (toISOString en (Min ((\<lambda>ev. newDate en (event_date ev)) ` set (live_events l (events w))))),
            Some (toISOString en (Max ((\<lambda>ev. newDate en (event_date ev)) ` set (live_events l (events w)))))))"
    by (simp add: lane_range_def Let_def)
  have a: "fst (updateDateRange en l w) = Inr (lane_range en l (events w))"
    by (rule updateDateRange_ok(1) [OF assms])
  have b: "map lane_id (memory_lanes (snd (updateDateRange en l w))) = map lane_id (memory_lanes w)"
    by (simp add: updateDateRange_ok(2) [OF assms] o_def)
  have c: "(date_range_start lane, date_range_end lane) = lane_range en l (events w)"
    if "lane \<in> set (memory_lanes (snd (updateDateRange en l w)))"
      and "lane_id lane = l" and "lane_deleted_at lane = None" for lane
  proof -
    let ?upd = "\<lambda>r. r\<lparr>date_range_start := fst (lane_range en l (events w)),
                       date_range_end := snd (lane_range en l (events w)),
                       lane_updated_at := now en\<rparr>"
    from that(1) have "lane \<in> (\<lambda>r. if lane_id r = l \<and> lane_deleted_at r = None then ?upd r else r)
                          ` set (memory_lanes w)"
      unfolding updateDateRange_ok(2) [OF assms] set_map .
    then obtain x where
      x: "lane = (if lane_id x = l \<and> lane_deleted_at x = None then ?upd x else x)"
      by blast
    show ?thesis
    proof (cases "lane_id x = l \<and> lane_deleted_at x = None")
      case True
      with x have "lane = ?upd x" by simp
      then show ?thesis by simp
    next
      case False
      with x that(2,3) show ?thesis by simp
    qed
  qed
  show ?thesis
    unfolding Let_def lr [symmetric]
    using a b c p by blast
qed

theorem updateDateRange_extremes_witness:
  "succeed 2 sample_world \<and>
   fst (updateDateRange sample_env ''L'' sample_world)
     = Inr (Some ''2023-01-10T00:00:00.000Z'', Some ''2023-05-05T00:00:00.000Z'') \<and>
   map (\<lambda>r. (lane_id r, date_range_start r, date_range_end r))
     (memory_lanes (snd (updateDateRange sample_env ''L'' sample_world)))
     = [(''L'', Some ''2023-01-10T00:00:00.000Z'', Some ''2023-05-05T00:00:00.000Z''),
        (''M'', None, None)]"
proof -
  have h: "succeed 2 sample_world" by (simp add: sample_world_def)
  have e: "fst (updateDateRange sample_env ''L'' sample_world)
     = Inr (Some ''2023-01-10T00:00:00.000Z'', Some ''2023-05-05T00:00:00.000Z'')"
    by code_simp
  have m: "map (\<lambda>r. (lane_id r, date_range_start r, date_range_end r))
     (memory_lanes (snd (updateDateRange sample_env ''L'' sample_world)))
     = [(''L'', Some ''2023-01-10T00:00:00.000Z'', Some ''2023-05-05T00:00:00.000Z''),
        (''M'', None, None)]"
    by code_simp
  from updateDateRange_extremes [OF h, of "''L''" sample_env] h e m
  show ?thesis by simp
qed


lemma updateDateRange_succeed:
  assumes "succeed (2 + m) w"
  shows "succeed m (snd (updateDateRange en l w))"
proof -
  have "succeed (Suc (Suc m)) w" using assms by simp
  then have "\<not> (faults w \<noteq> [] \<and> hd (faults w))"
    using request_succeed [of "Suc m" w] by (simp add: request_eq)
  then have "faults (snd (updateDateRange en l w)) = drop 2 (faults w)"
    by (auto simp: updateDateRange_faults drop_Suc numeral_2_eq_2 drop_tl)
  with assms show ?thesis by (rule succeed_drop)
qed

text \<open>
  Claim C9. Two calls of \<^verbatim>\<open>updateDateRange\<close> in succession, with all four requests
  succeeding: both return the same pair, the first call leaves the events untouched, and
  the stored bounds of every lane are the same after the second call as after the first.
\<close>

theorem updateDateRange_idempotent:
  assumes "succeed 4 w"
  shows "let r1 = updateDateRange en l w; r2 = updateDateRange en l (snd r1) in
           (\<exists>p. fst r1 = Inr p) \<and> fst r2 = fst r1 \<and> events (snd r1) = events w \<and>
           map (\<lambda>r. (lane_id r, date_range_start r, date_range_end r)) (memory_lanes (snd r2))
             = map (\<lambda>r. (lane_id r, date_range_start r, date_range_end r)) (memory_lanes (snd r1))"
proof -
  have "set (take 2 (faults w)) \<subseteq> set (take 4 (faults w))"
    by (rule set_take_subset_set_take) simp
  with assms have s1: "succeed 2 w" by (auto simp: succeed_def)
  have s2: "succeed 2 (snd (updateDateRange en l w))"
    using assms updateDateRange_succeed [of 2 w en l] by simp
  show ?thesis
    unfolding Let_def
    by (simp add: updateDateRange_ok [OF s1] updateDateRange_ok [OF s2] o_def)
qed

theorem updateDateRange_idempotent_witness:
  "succeed 4 sample_world \<and>
   fst (updateDateRange sample_env ''L'' sample_world)
     = Inr (Some ''2023-01-10T00:00:00.000Z'', Some ''2023-05-05T00:00:00.000Z'') \<and>
   fst (updateDateRange sample_env ''L'' (snd (updateDateRange sample_env ''L'' sample_world)))
     = Inr (Some ''2023-01-10T00:00:00.000Z'', Some ''2023-05-05T00:00:00.000Z'')"
proof -
  have h: "succeed 4 sample_world" by (simp add: sample_world_def)
  have e: "fst (updateDateRange sample_env ''L'' sample_world)
     = Inr (Some ''2023-01-10T00:00:00.000Z'', Some ''2023-05-05T00:00:00.000Z'')"
    by code_simp
  from updateDateRange_idempotent [OF h, of sample_env "''L''"] h e
  show ?thesis by (simp add: Let_def)
qed

section \<open>Formatting of the date range\<close>




section \<open>Appending a sibling\<close>

lemma top_position:
  fixes f :: "'a \<Rightarrow> int"
  shows "(case take (Suc 0) (rev (sort_key f xs)) of [] \<Rightarrow> 1 | m # _ \<Rightarrow> f m + 1)
           = next_position (map f xs)"
proof (cases "xs = []")
  case True
  then show ?thesis by (simp add: next_position_def)
next
  case False
  let ?ys = "sort_key f xs"
  have ne: "?ys \<noteq> []" using False by (simp add: sort_eq_Nil)
  then have t: "take (Suc 0) (rev ?ys) = [last ?ys]"
    by (cases ?ys rule: rev_cases) simp_all
  have "f (last ?ys) = last (map f ?ys)" using ne by (simp add: last_map)
  also have "\<dots> = Max (set (map f ?ys))"
    using ne by (intro sorted_last_Max) simp_all
  also have "\<dots> = Max (set (map f xs))" by simp
  finally show ?thesis using False by (simp add: t next_position_def)
qed

lemma succeed_2_iff:
  "succeed 2 w \<longleftrightarrow> \<not> (faults w \<noteq> [] \<and> hd (faults w)) \<and>
                    \<not> (tl (faults w) \<noteq> [] \<and> hd (tl (faults w)))"
proof (cases "faults w")
  case Nil
  then show ?thesis by (simp add: succeed_def)
next
  case (Cons a fs)
  then show ?thesis by (cases fs) (auto simp: succeed_def numeral_2_eq_2)
qed

lemma createEvent_append:
  assumes "\<not> truthy_num (ne_order_position ev)"
  shows "fst (createEvent en ev uuid w) =
           (if succeed 2 w then Inr (appended_event en ev uuid w) else Inl DbError)"
    and "events (snd (createEvent en ev uuid w)) =
           (if succeed 2 w then events w @ [appended_event en ev uuid w] else events w)"
    and "images (snd (createEvent en ev uuid w)) = images w"
  using assms
  by (simp_all add: createEvent_def top_position request_eq succeed_2_iff appended_event_def
        split_beta Let_def)













section \<open>Event mutations and the recomputation\<close>

lemma succeed_1_iff: "succeed (Suc 0) w \<longleftrightarrow> \<not> (faults w \<noteq> [] \<and> hd (faults w))"
  by (cases "faults w") (auto simp: succeed_def)

lemma createEvent_given:
  assumes "truthy_num (ne_order_position ev)" and "succeed (Suc 0) w"
  shows "fst (createEvent en ev uuid w) =
           Inr \<lparr>event_id = uuid, memory_lane_id = ne_memory_lane_id ev,
                event_date = ne_event_date ev,
                order_position = (case ne_order_position ev of None \<Rightarrow> 0 | Some n \<Rightarrow> n),
                created_at = now en, updated_at = now en, deleted_at = None\<rparr>"
  using assms
  by (simp add: createEvent_def request_eq succeed_1_iff split_beta Let_def)

lemma createEvent_trace:
  assumes "succeed (if truthy_num (ne_order_position ev) then 1 else 2) w"
  shows "trace (snd (createEvent en ev uuid w)) =
           trace w @ [EventWrite uuid, Recompute (ne_memory_lane_id ev)]"
  using assms
  by (cases "truthy_num (ne_order_position ev)")
     (simp_all add: createEvent_def request_eq succeed_1_iff succeed_2_iff split_beta Let_def)

lemma getEventById_found:
  assumes "\<not> (faults w \<noteq> [] \<and> hd (faults w))"
    and "filter (\<lambda>e. event_id e = eid \<and> deleted_at e = None) (events w) = [cur]"
  shows "getEventById eid w = (Inr (Some cur), w\<lparr>faults := tl (faults w)\<rparr>)"
  using assms by (simp add: getEventById_def request_eq)

lemma updateEvent_found:
  assumes "succeed 2 w"
    and "filter (\<lambda>e. event_id e = eid \<and> deleted_at e = None) (events w) = [cur]"
  shows "fst (updateEvent en eid u w) = Inr (Some (apply_event_updates en u cur))"
    and "trace (snd (updateEvent en eid u w)) =
           trace w @ [EventWrite eid] @
           (if truthy_str (upd_event_date u) then [Recompute (memory_lane_id cur)] else [])"
  using assms
  by (simp_all add: updateEvent_def getEventById_found request_eq succeed_2_iff Let_def)

lemma deleteEvent_found:
  assumes "succeed 2 w"
    and "filter (\<lambda>e. event_id e = eid \<and> deleted_at e = None) (events w) = [cur]"
  shows "fst (deleteEvent en eid w) = Inr ()"
    and "trace (snd (deleteEvent en eid w)) =
           trace w @ [EventWrite eid, Recompute (memory_lane_id cur)]"
  using assms
  by (simp_all add: deleteEvent_def getEventById_found request_eq succeed_2_iff Let_def)

text \<open>
  Claim C5. An event mutation whose own requests succeed (the read of the maximum when
  there is one and the insert for \<^verbatim>\<open>createEvent\<close>; the read of the event and the write for
  \<^verbatim>\<open>updateEvent\<close> and \<^verbatim>\<open>deleteEvent\<close>, the event being found) returns a result, not an error,
  whatever the requests of the recomputation that follows do.
\<close>

theorem mutation_survives_recompute:
  "(succeed (if truthy_num (ne_order_position ev) then 1 else 2) w \<longrightarrow>
      (\<exists>row. fst (createEvent en ev uuid w) = Inr row)) \<and>
   (succeed 2 w \<and> filter (\<lambda>e. event_id e = eid \<and> deleted_at e = None) (events w) = [cur] \<longrightarrow>
      (\<exists>r. fst (updateEvent en eid u w) = Inr r) \<and> fst (deleteEvent en eid w) = Inr ())"
proof -
  have "\<exists>row. fst (createEvent en ev uuid w) = Inr row"
    if "succeed (if truthy_num (ne_order_position ev) then 1 else 2) w"
  proof (cases "truthy_num (ne_order_position ev)")
    case True
    with that show ?thesis by (simp add: createEvent_given)
  next
    case False
    with that show ?thesis by (simp add: createEvent_append)
  qed
  then show ?thesis
    by (simp add: updateEvent_found deleteEvent_found)
qed

theorem mutation_survives_recompute_witness:
  "succeed 2 (sample_world\<lparr>faults := [False, False, True]\<rparr>) \<and>
   filter (\<lambda>e. event_id e = ''A'' \<and> deleted_at e = None)
     (events (sample_world\<lparr>faults := [False, False, True]\<rparr>)) = [hd (events sample_world)] \<and>
   fst (updateDateRange sample_env ''L'' (sample_world\<lparr>faults := [True]\<rparr>)) = Inl DbError \<and>
   fst (createEvent sample_env
          \<lparr>ne_memory_lane_id = ''L'', ne_event_date = ''2023-06-20'', ne_order_position = None\<rparr>
          ''F'' (sample_world\<lparr>faults := [False, False, True]\<rparr>))
     = Inr \<lparr>event_id = ''F'', memory_lane_id = ''L'', event_date = ''2023-06-20'',
            order_position = 4, created_at = ''2024-01-01T00:00:00.000Z'',
            updated_at = ''2024-01-01T00:00:00.000Z'', deleted_at = None\<rparr> \<and>
   fst (updateEvent sample_env ''A''
          \<lparr>upd_memory_lane_id = None, upd_event_date = Some ''2023-06-20'',
           upd_order_position = None\<rparr> (sample_world\<lparr>faults := [False, False, True]\<rparr>))
     = Inr (Some \<lparr>event_id = ''A'', memory_lane_id = ''L'', event_date = ''2023-06-20'',
            order_position = 1, created_at = ''t0'',
            updated_at = ''2024-01-01T00:00:00.000Z'', deleted_at = None\<rparr>) \<and>
   fst (deleteEvent sample_env ''A'' (sample_world\<lparr>faults := [False, False, True]\<rparr>)) = Inr () \<and>
   memory_lanes (snd (deleteEvent sample_env ''A'' (sample_world\<lparr>faults := [False, False, True]\<rparr>)))
     = memory_lanes sample_world"
proof -
  let ?w = "sample_world\<lparr>faults := [False, False, True]\<rparr>"
  let ?ev = "\<lparr>ne_memory_lane_id = ''L'', ne_event_date = ''2023-06-20'', ne_order_position = None\<rparr>"
  let ?u = "\<lparr>upd_memory_lane_id = None, upd_event_date = Some ''2023-06-20'',
             upd_order_position = None\<rparr>"
  have h1: "succeed 2 ?w" by (simp add: succeed_def)
  have h2: "filter (\<lambda>e. event_id e = ''A'' \<and> deleted_at e = None) (events ?w)
              = [hd (events sample_world)]"
    by (simp add: sample_world_def)
  have r: "fst (updateDateRange sample_env ''L'' (sample_world\<lparr>faults := [True]\<rparr>)) = Inl DbError"
    by code_simp
  have a: "fst (createEvent sample_env ?ev ''F'' ?w)
     = Inr \<lparr>event_id = ''F'', memory_lane_id = ''L'', event_date = ''2023-06-20'',
            order_position = 4, created_at = ''2024-01-01T00:00:00.000Z'',
            updated_at = ''2024-01-01T00:00:00.000Z'', deleted_at = None\<rparr>"
    by code_simp
  have b: "fst (updateEvent sample_env ''A'' ?u ?w)
     = Inr (Some \<lparr>event_id = ''A'', memory_lane_id = ''L'', event_date = ''2023-06-20'',
            order_position = 1, created_at = ''t0'',
            updated_at = ''2024-01-01T00:00:00.000Z'', deleted_at = None\<rparr>)"
    by code_simp
  have c: "memory_lanes (snd (deleteEvent sample_env ''A'' ?w)) = memory_lanes sample_world"
    by code_simp
  from mutation_survives_recompute [of ?ev ?w sample_env "''F''" "''A''" "hd (events sample_world)" ?u]
    h1 h2 r a b c
  show ?thesis by (simp add: truthy_num_def)
qed

text \<open>
  Claim C7, amended. When the mutation's own requests succeed, the log grows by the write
  followed by the recomputation for \<^verbatim>\<open>createEvent\<close> (lane of the new event) and for
  \<^verbatim>\<open>deleteEvent\<close> (lane of the event as read before the write); for \<^verbatim>\<open>updateEvent\<close> it grows
  by the write, followed by the recomputation exactly when the update carries a truthy
  \<^verbatim>\<open>event_date\<close>, for the lane of the event as read before the write.
\<close>

theorem recompute_invocations:
  "(succeed (if truthy_num (ne_order_position ev) then 1 else 2) w \<longrightarrow>
      trace (snd (createEvent en ev uuid w)) =
        trace w @ [EventWrite uuid, Recompute (ne_memory_lane_id ev)]) \<and>
   (succeed 2 w \<and> filter (\<lambda>e. event_id e = eid \<and> deleted_at e = None) (events w) = [cur] \<longrightarrow>
      trace (snd (updateEvent en eid u w)) =
        trace w @ [EventWrite eid] @
        (if truthy_str (upd_event_date u) then [Recompute (memory_lane_id cur)] else []) \<and>
      trace (snd (deleteEvent en eid w)) =
        trace w @ [EventWrite eid, Recompute (memory_lane_id cur)])"
  by (simp add: createEvent_trace updateEvent_found deleteEvent_found)

theorem recompute_invocations_witness:
  "succeed 2 sample_world \<and>
   filter (\<lambda>e. event_id e = ''A'' \<and> deleted_at e = None) (events sample_world)
     = [hd (events sample_world)] \<and>
   trace (snd (createEvent sample_env
            \<lparr>ne_memory_lane_id = ''L'', ne_event_date = ''2023-06-20'', ne_order_position = None\<rparr>
            ''F'' sample_world)) = [EventWrite ''F'', Recompute ''L''] \<and>
   trace (snd (updateEvent sample_env ''A''
            \<lparr>upd_memory_lane_id = Some ''M'', upd_event_date = Some ''2023-06-20'',
             upd_order_position = None\<rparr> sample_world)) = [EventWrite ''A'', Recompute ''L''] \<and>
   trace (snd (updateEvent sample_env ''A''
            \<lparr>upd_memory_lane_id = None, upd_event_date = None,
             upd_order_position = Some 7\<rparr> sample_world)) = [EventWrite ''A''] \<and>
   trace (snd (deleteEvent sample_env ''A'' sample_world)) = [EventWrite ''A'', Recompute ''L'']"
proof -
  let ?ev = "\<lparr>ne_memory_lane_id = ''L'', ne_event_date = ''2023-06-20'', ne_order_position = None\<rparr>"
  let ?u = "\<lparr>upd_memory_lane_id = Some ''M'', upd_event_date = Some ''2023-06-20'',
             upd_order_position = None\<rparr>"
  let ?v = "\<lparr>upd_memory_lane_id = None, upd_event_date = None, upd_order_position = Some 7\<rparr>"
  have h1: "succeed 2 sample_world" by (simp add: succeed_def sample_world_def)
  have h2: "filter (\<lambda>e. event_id e = ''A'' \<and> deleted_at e = None) (events sample_world)
              = [hd (events sample_world)]"
    by (simp add: sample_world_def)
  have t: "trace sample_world = []" "memory_lane_id (hd (events sample_world)) = ''L''"
    by (simp_all add: sample_world_def)
  from recompute_invocations [of ?ev sample_world sample_env "''F''" "''A''" "hd (events sample_world)" ?u]
    recompute_invocations [of ?ev sample_world sample_env "''F''" "''A''" "hd (events sample_world)" ?v]
    h1 h2 t
  show ?thesis by (simp add: truthy_num_def truthy_str_def)
qed

text \<open>
  Claim C7 as stated fails: an update that supplies the date the event already has leaves
  every \<^verbatim>\<open>event_date\<close> as it was, and the date range is recomputed all the same.
\<close>

theorem recompute_unchanged_date_counterexample:
  "event_date (hd (events sample_world)) = ''2023-03-01'' \<and>
   map event_date (events (snd (updateEvent sample_env ''A''
       \<lparr>upd_memory_lane_id = None, upd_event_date = Some ''2023-03-01'',
        upd_order_position = None\<rparr> sample_world))) = map event_date (events sample_world) \<and>
   trace (snd (updateEvent sample_env ''A''
       \<lparr>upd_memory_lane_id = None, upd_event_date = Some ''2023-03-01'',
        upd_order_position = None\<rparr> sample_world)) = [EventWrite ''A'', Recompute ''L'']"
  by code_simp

section \<open>Promotion to primary and batch renumbering\<close>

lemma assign_positions_Nil [simp]: "assign_positions [] imgs = imgs"
  by (simp add: assign_positions_def)


lemma assign_positions_ids [simp]:
  "map image_id (assign_positions m imgs) = map image_id imgs"
  "map image_event_id (assign_positions m imgs) = map image_event_id imgs"
  by (auto simp: assign_positions_def split: option.splits)


lemma succeed_images [simp]: "succeed n (w\<lparr>images := imgs\<rparr>) = succeed n w"
  by (simp add: succeed_def)

lemma numbering_Nil [simp]: "numbering t [] p = []"
  by (simp add: numbering_def)

















text \<open>
  Claim C6 against the code. \<^verbatim>\<open>setPrimaryImage\<close> whose second sibling update fails, and
  \<^verbatim>\<open>reorderEvents\<close> whose second update fails: the writes applied before stay in place,
  the failed write is missing, and both calls return normally instead of reporting the
  failure.
\<close>

theorem failed_sibling_update_not_reported:
  "fst (setPrimaryImage ''b'' ''A'' (sample_world\<lparr>faults := [False, False, False, True]\<rparr>))
     = Inr () \<and>
   map (\<lambda>i. (image_id i, image_order_position i))
     (images (snd (setPrimaryImage ''b'' ''A''
        (sample_world\<lparr>faults := [False, False, False, True]\<rparr>))))
     = [(''a'', 1), (''b'', 0), (''c'', 5), (''d'', 0)] \<and>
   fst (reorderEvents sample_env ''L'' [(''A'', 3), (''B'', 1), (''C'', 2)]
          (sample_world\<lparr>faults := [False, True]\<rparr>)) = Inr () \<and>
   map (\<lambda>e. (event_id e, order_position e))
     (events (snd (reorderEvents sample_env ''L'' [(''A'', 3), (''B'', 1), (''C'', 2)]
        (sample_world\<lparr>faults := [False, True]\<rparr>))))
     = [(''A'', 3), (''B'', 2), (''C'', 2), (''D'', 3), (''E'', 1)]"
  by code_simp


end
